theory Spec2Isabelle
  imports Complex_Main "HOL-Library.Word"
begin

section \<open>Data: bytes, text, exceptions\<close>

text \<open>
  A Python \<open>bytes\<close> object is a list of octets; a Python \<open>str\<close> is a list of Unicode code
  points (so that \<open>len\<close> counts code points and \<open>encode\<close> counts octets). Literals of the
  source are written with \<open>lit\<close>.
\<close>

type_synonym byte = "8 word"
type_synonym bytes = "byte list"
type_synonym str = "nat list"

definition lit :: "string \<Rightarrow> str" where
  "lit cs = map of_char cs"

text \<open>The exceptions that the modelled code can raise.\<close>

datatype exn = StructError | SocketError | UnicodeDecodeError | UnicodeEncodeError | IndexError

section \<open>Configuration constants\<close>

definition RTP_PORT :: nat where "RTP_PORT = 5004"
definition RTSP_PORT :: nat where "RTSP_PORT = 554"
definition MAX_PACKET_SIZE :: int where "MAX_PACKET_SIZE = 1400"
definition RTP_HEADER_SIZE :: int where "RTP_HEADER_SIZE = 12"
definition JOIN_TIMEOUT :: nat where "JOIN_TIMEOUT = 5"

section \<open>RTP header\<close>

text \<open>
  \<open>struct.pack("!BBHII", ...)\<close>: network byte order, no padding; a field whose value does
  not fit its width raises \<open>struct.error\<close>. \<open>be_bytes n v\<close> is the big-endian encoding of
  \<open>v\<close> on \<open>n\<close> octets.
\<close>

fun be_bytes :: "nat \<Rightarrow> nat \<Rightarrow> bytes" where
  "be_bytes 0 v = []"
| "be_bytes (Suc n) v = word_of_nat ((v div 256 ^ n) mod 256) # be_bytes n v"

definition pack_uint :: "nat \<Rightarrow> int \<Rightarrow> exn + bytes" where
  "pack_uint n v =
     (if 0 \<le> v \<and> v < 256 ^ n then Inr (be_bytes n (nat v)) else Inl StructError)"

definition struct_pack_BBHII :: "int \<Rightarrow> int \<Rightarrow> int \<Rightarrow> int \<Rightarrow> int \<Rightarrow> exn + bytes" where
  "struct_pack_BBHII a b c d e =
     (case pack_uint 1 a of Inl x \<Rightarrow> Inl x | Inr ba \<Rightarrow>
     (case pack_uint 1 b of Inl x \<Rightarrow> Inl x | Inr bb \<Rightarrow>
     (case pack_uint 2 c of Inl x \<Rightarrow> Inl x | Inr bc \<Rightarrow>
     (case pack_uint 4 d of Inl x \<Rightarrow> Inl x | Inr bd \<Rightarrow>
     (case pack_uint 4 e of Inl x \<Rightarrow> Inl x | Inr be \<Rightarrow>
        Inr (ba @ bb @ bc @ bd @ be))))))"

definition create_rtp_header :: "int \<Rightarrow> int \<Rightarrow> int \<Rightarrow> exn + bytes" where
  "create_rtp_header sequence_number timestamp ssrc =
     (let version_padding_extension_csrc = 0x80;
          payload_type = 26;
          marker_payload_type = payload_type
      in struct_pack_BBHII version_padding_extension_csrc marker_payload_type
           sequence_number timestamp ssrc)"

text \<open>Reading the 16-bit sequence field back from a datagram (octets 2 and 3).\<close>

definition rtp_seq :: "bytes \<Rightarrow> nat" where
  "rtp_seq pkt = unat (pkt ! 2) * 256 + unat (pkt ! 3)"

definition rtp_payload :: "bytes \<Rightarrow> bytes" where
  "rtp_payload pkt = drop 12 pkt"

section \<open>The streaming job and its fragmentation loop\<close>

text \<open>
  One streaming thread: its life-cycle state, its local sequence counter and the datagrams
  it has handed to the network so far, in order.
\<close>

datatype tstatus = Created | Streaming | Finished | Crashed exn

record job =
  status :: tstatus
  sequence_number :: nat
  sent :: "bytes list"

definition SSRC :: int where "SSRC = 0x12345678"

text \<open>How the inner \<open>while offset < len(jpeg_data)\<close> loop is left.\<close>

datatype frag_exit =
    FragDone            \<comment> \<open>the loop condition became false\<close>
  | FragNoRoom          \<comment> \<open>\<open>if payload_size <= 0: break\<close>\<close>
  | FragSendError       \<comment> \<open>\<open>sendto\<close> raised; \<open>streaming_active = False; break\<close>\<close>
  | FragRaised exn      \<comment> \<open>an exception nobody catches (from \<open>struct.pack\<close>)\<close>

text \<open>
  The loop of lines 97 to 118, with the two module constants as parameters \<open>M\<close> and \<open>H\<close>.
  \<open>net k\<close> tells whether the \<open>sendto\<close> issued after \<open>k\<close> datagrams of this job succeeds.
  The pacing \<open>time.sleep\<close> is not modelled.
\<close>

function fragment_loop ::
  "int \<Rightarrow> int \<Rightarrow> (nat \<Rightarrow> bool) \<Rightarrow> bytes \<Rightarrow> int \<Rightarrow> nat \<Rightarrow> job \<Rightarrow> frag_exit \<times> job" where
  "fragment_loop M H net jpeg_data timestamp offset j =
     (if offset < length jpeg_data then
        (let payload_size = min (int (length jpeg_data) - int offset) (M - H) in
         if payload_size \<le> 0 then (FragNoRoom, j)
         else
           (case create_rtp_header (int (sequence_number j)) timestamp SSRC of
              Inl e \<Rightarrow> (FragRaised e, j)
            | Inr header \<Rightarrow>
                (let rtp_packet = header @ take (nat payload_size) (drop offset jpeg_data) in
                 if net (length (sent j)) then
                   fragment_loop M H net jpeg_data timestamp (offset + nat payload_size)
                     (j\<lparr>sent := sent j @ [rtp_packet],
                        sequence_number :=
                          (if sequence_number j + 1 > 65535 then 0 else sequence_number j + 1)\<rparr>)
                 else (FragSendError, j))))
      else (FragDone, j))"
  by pat_completeness auto
termination
  by (relation "measure (\<lambda>(M, H, net, d, ts, offset, j). length d - offset)") auto

declare fragment_loop.simps [simp del]


section \<open>Text operations of the control channel\<close>

text \<open>\<open>s.startswith(p)\<close> and \<open>p in s\<close> (substring containment).\<close>

fun startswith :: "'a list \<Rightarrow> 'a list \<Rightarrow> bool" where
  "startswith s [] = True"
| "startswith [] (p # ps) = False"
| "startswith (c # cs) (p # ps) = (c = p \<and> startswith cs ps)"

fun py_in :: "'a list \<Rightarrow> 'a list \<Rightarrow> bool" where
  "py_in p [] = (p = [])"
| "py_in p (c # cs) = (startswith (c # cs) p \<or> py_in p cs)"

text \<open>
  \<open>s.split(sep)\<close> for a non-empty separator (the source only splits on the literals
  \<open>'\r\n'\<close> and \<open>":"\<close>): the fields between the non-overlapping occurrences of \<open>sep\<close>,
  found from the left. \<open>cur\<close> is the field being read, reversed.
\<close>

function split_from :: "'a list \<Rightarrow> 'a list \<Rightarrow> 'a list \<Rightarrow> 'a list list" where
  "split_from sep cur [] = [rev cur]"
| "split_from sep cur (c # cs) =
     (if sep \<noteq> [] \<and> startswith (c # cs) sep
      then rev cur # split_from sep [] (drop (length sep) (c # cs))
      else split_from sep (c # cur) cs)"
  by pat_completeness auto
termination
  by (relation "measure (\<lambda>(sep, cur, s). length s)") (auto simp: neq_Nil_conv)

definition py_split :: "'a list \<Rightarrow> 'a list \<Rightarrow> 'a list list" where
  "py_split s sep = split_from sep [] s"

text \<open>\<open>str.isspace\<close> on one code point, and \<open>s.strip()\<close>.\<close>

definition isspace :: "nat \<Rightarrow> bool" where
  "isspace c \<longleftrightarrow>
     (9 \<le> c \<and> c \<le> 13) \<or> (28 \<le> c \<and> c \<le> 32) \<or> c = 133 \<or> c = 160 \<or> c = 5760 \<or>
     (8192 \<le> c \<and> c \<le> 8202) \<or> c = 8232 \<or> c = 8233 \<or> c = 8239 \<or> c = 8287 \<or> c = 12288"

definition strip :: "str \<Rightarrow> str" where
  "strip s = rev (dropWhile isspace (rev (dropWhile isspace s)))"

text \<open>\<open>str(n)\<close> for a non-negative integer, as an f-string field prints it.\<close>

function str_of_nat :: "nat \<Rightarrow> str" where
  "str_of_nat n = (if n < 10 then [48 + n] else str_of_nat (n div 10) @ [48 + n mod 10])"
  by pat_completeness auto
termination
  by (relation "measure id") auto

declare str_of_nat.simps [simp del]

definition CRLF :: str where
  "CRLF = [13, 10]"

section \<open>UTF-8\<close>

text \<open>
  \<open>bytes.decode('utf-8')\<close> in strict mode: the well-formed sequences of the Unicode
  standard (no overlong forms, no surrogates, nothing above U+10FFFF); anything else raises
  \<open>UnicodeDecodeError\<close>, here \<open>None\<close>. The decoder works on the octets' values.
\<close>

definition cont :: "nat \<Rightarrow> bool" where
  "cont b \<longleftrightarrow> 128 \<le> b \<and> b \<le> 191"

fun utf8_dec :: "nat list \<Rightarrow> str option" where
  "utf8_dec [] = Some []"
| "utf8_dec (b0 # r) =
     (if b0 < 128 then map_option ((#) b0) (utf8_dec r)
      else if 194 \<le> b0 \<and> b0 \<le> 223 then
        (case r of
           b1 # r1 \<Rightarrow>
             if cont b1
             then map_option ((#) ((b0 - 192) * 64 + (b1 - 128))) (utf8_dec r1)
             else None
         | _ \<Rightarrow> None)
      else if 224 \<le> b0 \<and> b0 \<le> 239 then
        (case r of
           b1 # b2 # r2 \<Rightarrow>
             if (if b0 = 224 then 160 else 128) \<le> b1 \<and> b1 \<le> (if b0 = 237 then 159 else 191)
                \<and> cont b2
             then map_option ((#) ((b0 - 224) * 4096 + (b1 - 128) * 64 + (b2 - 128)))
                    (utf8_dec r2)
             else None
         | _ \<Rightarrow> None)
      else if 240 \<le> b0 \<and> b0 \<le> 244 then
        (case r of
           b1 # b2 # b3 # r3 \<Rightarrow>
             if (if b0 = 240 then 144 else 128) \<le> b1 \<and> b1 \<le> (if b0 = 244 then 143 else 191)
                \<and> cont b2 \<and> cont b3
             then map_option
                    ((#) ((b0 - 240) * 262144 + (b1 - 128) * 4096 + (b2 - 128) * 64 + (b3 - 128)))
                    (utf8_dec r3)
             else None
         | _ \<Rightarrow> None)
      else None)"

definition utf8_decode :: "bytes \<Rightarrow> str option" where
  "utf8_decode bs = utf8_dec (map unat bs)"

text \<open>
  \<open>str.encode('utf-8')\<close>: a surrogate code point raises \<open>UnicodeEncodeError\<close>, here
  \<open>None\<close>.
\<close>

definition utf8_enc_cp :: "nat \<Rightarrow> nat list option" where
  "utf8_enc_cp c =
     (if c < 128 then Some [c]
      else if c < 2048 then Some [192 + c div 64, 128 + c mod 64]
      else if c < 65536 then
        (if 55296 \<le> c \<and> c \<le> 57343 then None
         else Some [224 + c div 4096, 128 + c div 64 mod 64, 128 + c mod 64])
      else if c < 1114112 then
        Some [240 + c div 262144, 128 + c div 4096 mod 64, 128 + c div 64 mod 64, 128 + c mod 64]
      else None)"

fun utf8_enc :: "str \<Rightarrow> nat list option" where
  "utf8_enc [] = Some []"
| "utf8_enc (c # cs) =
     (case utf8_enc_cp c of
        None \<Rightarrow> None
      | Some e \<Rightarrow> (case utf8_enc cs of None \<Rightarrow> None | Some es \<Rightarrow> Some (e @ es)))"

definition utf8_encode :: "str \<Rightarrow> bytes option" where
  "utf8_encode s = map_option (map word_of_nat) (utf8_enc s)"

section \<open>Shared state\<close>

text \<open>
  The module globals that the control handlers and the streaming threads share: the flag
  \<open>streaming_active\<close>, the reference \<open>rtp_thread\<close> to the thread started last (an index
  into \<open>threads\<close>), and every streaming thread ever started, with its own local state.
\<close>

record server =
  streaming_active :: bool
  rtp_thread :: "nat option"
  threads :: "job list"

definition initial :: server where
  "initial = \<lparr>streaming_active = False, rtp_thread = None, threads = []\<rparr>"

definition is_alive :: "job \<Rightarrow> bool" where
  "is_alive j \<longleftrightarrow> status j = Created \<or> status j = Streaming"

text \<open>\<open>rtp_thread and rtp_thread.is_alive()\<close>\<close>

definition rtp_thread_alive :: "server \<Rightarrow> bool" where
  "rtp_thread_alive st =
     (case rtp_thread st of
        None \<Rightarrow> False
      | Some i \<Rightarrow> i < length (threads st) \<and> is_alive (threads st ! i))"

text \<open>
  \<open>threading.Thread(target=rtp_stream_video).start()\<close>, with \<open>streaming_active = True\<close>
  set just before (lines 167 to 170).
\<close>

definition start_rtp_thread :: "server \<Rightarrow> server" where
  "start_rtp_thread st =
     st\<lparr>streaming_active := True,
        rtp_thread := Some (length (threads st)),
        threads := threads st @ [\<lparr>status = Created, sequence_number = 0, sent = []\<rparr>]\<rparr>"

section \<open>The control handler\<close>

text \<open>The \<open>for line in lines\<close> loop of lines 148 to 151; \<open>cseq\<close> is the default.\<close>

fun find_cseq :: "str list \<Rightarrow> str \<Rightarrow> exn + str" where
  "find_cseq [] cseq = Inr cseq"
| "find_cseq (line # lines) cseq =
     (if startswith line (lit ''CSeq:'')
      then (case py_split line (lit '':'') of
              a # b # rest \<Rightarrow> Inr (strip b)
            | _ \<Rightarrow> Inl IndexError)
      else find_cseq lines cseq)"

definition parse_cseq :: "str \<Rightarrow> exn + str" where
  "parse_cseq data = find_cseq (py_split data CRLF) (lit ''1'')"

text \<open>The response texts, as the f-strings build them.\<close>

definition setup_response :: "str \<Rightarrow> str" where
  "setup_response cseq =
     lit ''RTSP/1.0 200 OK'' @ CRLF @
     lit ''CSeq: '' @ cseq @ CRLF @
     lit ''Transport: RTP/AVP;unicast;client_port='' @ str_of_nat RTP_PORT @ lit ''-'' @
       str_of_nat (RTP_PORT + 1) @ CRLF @
     lit ''Session: 12345678'' @ CRLF @ CRLF"

definition play_response :: "str \<Rightarrow> str" where
  "play_response cseq =
     lit ''RTSP/1.0 200 OK'' @ CRLF @
     lit ''CSeq: '' @ cseq @ CRLF @
     lit ''Session: 12345678'' @ CRLF @ CRLF"

definition teardown_response :: "str \<Rightarrow> str" where
  "teardown_response cseq =
     lit ''RTSP/1.0 200 OK'' @ CRLF @
     lit ''CSeq: '' @ cseq @ CRLF @ CRLF"

definition payload_type_jpeg :: nat where
  "payload_type_jpeg = 26"

definition sdp_payload :: str where
  "sdp_payload =
     lit ''v=0'' @ CRLF @
     lit ''o=- 0 0 IN IP4 127.0.0.1'' @ CRLF @
     lit ''s=RTSP Stream'' @ CRLF @
     lit ''t=0 0'' @ CRLF @
     lit ''a=control:rtsp://127.0.0.1:'' @ str_of_nat RTSP_PORT @ lit ''/stream'' @ CRLF @
     lit ''m=video 0 RTP/AVP '' @ str_of_nat payload_type_jpeg @ CRLF @
     lit ''a=rtpmap:'' @ str_of_nat payload_type_jpeg @ lit '' JPEG/90000'' @ CRLF @
     lit ''a=control:streamid=0'' @ CRLF"

definition response_headers :: "str \<Rightarrow> str" where
  "response_headers cseq =
     lit ''RTSP/1.0 200 OK'' @ CRLF @
     lit ''CSeq: '' @ cseq @ CRLF @
     lit ''Content-Type: application/sdp'' @ CRLF @
     lit ''Content-Length: '' @ str_of_nat (length sdp_payload) @ CRLF @
     CRLF"

definition describe_response :: "str \<Rightarrow> str" where
  "describe_response cseq = response_headers cseq @ sdp_payload"

definition options_response :: "str \<Rightarrow> str" where
  "options_response cseq =
     lit ''RTSP/1.0 200 OK'' @ CRLF @
     lit ''CSeq: '' @ cseq @ CRLF @
     lit ''Public: DESCRIBE, SETUP, TEARDOWN, PLAY, PAUSE, OPTIONS'' @ CRLF @ CRLF"

definition bad_request_response :: "str \<Rightarrow> str" where
  "bad_request_response cseq =
     lit ''RTSP/1.0 400 Bad Request'' @ CRLF @
     lit ''CSeq: '' @ cseq @ CRLF @ CRLF"

text \<open>
  What one pass of the handler loop does with a non-empty request text (lines 145 to 237):
  the new shared state, the text handed to \<open>sendall\<close>, the timeout of the \<open>join\<close> it
  makes (if it makes one), and whether the loop is left by \<open>break\<close> after the response.
\<close>

record outcome =
  new_state :: server
  response :: str
  join_timeout :: "nat option"
  closing :: bool

definition dispatch :: "str \<Rightarrow> str \<Rightarrow> server \<Rightarrow> outcome" where
  "dispatch data cseq st =
     (if py_in (lit ''SETUP'') data then
        \<lparr>new_state = st, response = setup_response cseq, join_timeout = None, closing = False\<rparr>
      else if py_in (lit ''PLAY'') data then
        \<lparr>new_state = (if \<not> streaming_active st then start_rtp_thread st else st),
         response = play_response cseq, join_timeout = None, closing = False\<rparr>
      else if py_in (lit ''TEARDOWN'') data then
        \<lparr>new_state = st\<lparr>streaming_active := False\<rparr>,
         response = teardown_response cseq,
         join_timeout = (if rtp_thread_alive st then Some JOIN_TIMEOUT else None),
         closing = True\<rparr>
      else if py_in (lit ''DESCRIBE'') data then
        \<lparr>new_state = st, response = describe_response cseq, join_timeout = None, closing = False\<rparr>
      else if py_in (lit ''OPTIONS'') data then
        \<lparr>new_state = st, response = options_response cseq, join_timeout = None, closing = False\<rparr>
      else
        \<lparr>new_state = st, response = bad_request_response cseq, join_timeout = None,
         closing = False\<rparr>)"

definition handle_request :: "str \<Rightarrow> server \<Rightarrow> exn + outcome" where
  "handle_request data st =
     (case parse_cseq data of
        Inl e \<Rightarrow> Inl e
      | Inr cseq \<Rightarrow> Inr (dispatch data cseq st))"

text \<open>
  One pass of \<open>while True\<close> in \<open>handle_rtsp_client\<close>. The environment supplies what
  \<open>recv\<close> returns (or that it raises) and whether \<open>sendall\<close> succeeds. The result is the
  shared state, the octets put on the wire, and why the connection is closed, if it is:
  every exception ends in the \<open>finally\<close> clause, which closes the socket.
\<close>

datatype recv = Recv bytes | RecvRaises

datatype closed = PeerClosed | TornDown | Failed exn

definition handle_pass :: "recv \<Rightarrow> bool \<Rightarrow> server \<Rightarrow> server \<times> bytes option \<times> closed option" where
  "handle_pass r send_ok st =
     (case r of
        RecvRaises \<Rightarrow> (st, None, Some (Failed SocketError))
      | Recv bs \<Rightarrow>
          (case utf8_decode bs of
             None \<Rightarrow> (st, None, Some (Failed UnicodeDecodeError))
           | Some data \<Rightarrow>
               if data = [] then (st, None, Some PeerClosed)
               else
                 (case handle_request data st of
                    Inl e \<Rightarrow> (st, None, Some (Failed e))
                  | Inr out \<Rightarrow>
                      (case utf8_encode (response out) of
                         None \<Rightarrow> (new_state out, None, Some (Failed UnicodeEncodeError))
                       | Some wire \<Rightarrow>
                           if send_ok
                           then (new_state out, Some wire,
                                 if closing out then Some TornDown else None)
                           else (new_state out, None, Some (Failed SocketError))))))"

text \<open>
  The handler loop over what the connection delivers: the wire output of each pass in
  order, and the reason of the close, or \<open>None\<close> while the handler still waits in \<open>recv\<close>.
\<close>

fun handle_rtsp_client ::
  "(recv \<times> bool) list \<Rightarrow> server \<Rightarrow> server \<times> bytes list \<times> closed option" where
  "handle_rtsp_client [] st = (st, [], None)"
| "handle_rtsp_client ((r, send_ok) # rest) st =
     (case handle_pass r send_ok st of
        (st', w, Some c) \<Rightarrow> (st', (case w of None \<Rightarrow> [] | Some x \<Rightarrow> [x]), Some c)
      | (st', w, None) \<Rightarrow>
          (case handle_rtsp_client rest st' of
             (st'', ws, c) \<Rightarrow> (st'', (case w of None \<Rightarrow> [] | Some x \<Rightarrow> [x]) @ ws, c)))"

section \<open>The streaming thread\<close>

text \<open>
  \<open>rtp_stream_video\<close> in two kinds of steps of thread \<open>i\<close>. The start (lines 69 to 82)
  opens the frame source; \<open>opened\<close> is what \<open>cap.isOpened()\<close> reports.
\<close>

definition put_job :: "nat \<Rightarrow> job \<Rightarrow> server \<Rightarrow> server" where
  "put_job i j st = st\<lparr>threads := (threads st)[i := j]\<rparr>"

definition thread_start :: "nat \<Rightarrow> bool \<Rightarrow> server \<Rightarrow> server" where
  "thread_start i opened st =
     (if i < length (threads st) \<and> status (threads st ! i) = Created then
        (if \<not> opened
         then put_job i ((threads st ! i)\<lparr>status := Finished\<rparr>) (st\<lparr>streaming_active := False\<rparr>)
         else put_job i ((threads st ! i)\<lparr>status := Streaming, sequence_number := 0\<rparr>) st)
      else st)"

text \<open>
  One pass of \<open>while streaming_active\<close> (lines 84 to 118), with the two size constants as
  parameters: the test of the flag, then \<open>cap.read()\<close> and the encoder, whose result is
  \<open>frame\<close> (\<open>None\<close> when \<open>ret\<close> is false), the \<open>timestamp\<close> computed from the clock, and the
  fragmentation loop. An exception of the loop body is caught nowhere: the thread dies
  with the flag as it is.
\<close>

definition stream_pass ::
  "int \<Rightarrow> int \<Rightarrow> nat \<Rightarrow> bytes option \<Rightarrow> int \<Rightarrow> (nat \<Rightarrow> bool) \<Rightarrow> server \<Rightarrow> server" where
  "stream_pass M H i frame timestamp net st =
     (if i < length (threads st) \<and> status (threads st ! i) = Streaming then
        (if \<not> streaming_active st
         then put_job i ((threads st ! i)\<lparr>status := Finished\<rparr>) st
         else
           (case frame of
              None \<Rightarrow>
                put_job i ((threads st ! i)\<lparr>status := Finished\<rparr>)
                  (st\<lparr>streaming_active := False\<rparr>)
            | Some jpeg_data \<Rightarrow>
                (case fragment_loop M H net jpeg_data timestamp 0 (threads st ! i) of
                   (FragRaised e, j) \<Rightarrow> put_job i (j\<lparr>status := Crashed e\<rparr>) st
                 | (FragSendError, j) \<Rightarrow> put_job i j (st\<lparr>streaming_active := False\<rparr>)
                 | (FragNoRoom, j) \<Rightarrow> put_job i j st
                 | (FragDone, j) \<Rightarrow> put_job i j st)))
      else st)"

definition thread_pass :: "nat \<Rightarrow> bytes option \<Rightarrow> int \<Rightarrow> (nat \<Rightarrow> bool) \<Rightarrow> server \<Rightarrow> server" where
  "thread_pass = stream_pass MAX_PACKET_SIZE RTP_HEADER_SIZE"

section \<open>Runs of the whole server\<close>

text \<open>
  A run interleaves requests handled on any control connection with steps of the streaming
  threads. A request is handled in one step; the \<open>join\<close> of TEARDOWN only waits, so the
  steps a thread takes during it are the thread events that follow.
\<close>

datatype event =
    Request str
  | ThreadStart nat bool
  | ThreadPass nat "bytes option" int "nat \<Rightarrow> bool"

fun step :: "event \<Rightarrow> server \<Rightarrow> server" where
  "step (Request data) st =
     (case handle_request data st of Inl e \<Rightarrow> st | Inr out \<Rightarrow> new_state out)"
| "step (ThreadStart i opened) st = thread_start i opened st"
| "step (ThreadPass i frame timestamp net) st = thread_pass i frame timestamp net st"

fun exec :: "event list \<Rightarrow> server \<Rightarrow> server" where
  "exec [] st = st"
| "exec (e # es) st = exec es (step e st)"

section \<open>Verified properties\<close>

subsection \<open>Packet framing\<close>

lemma length_be_bytes: "length (be_bytes n v) = n"
  by (induction n) auto

lemma be_bytes_1: "be_bytes (Suc 0) v = [word_of_nat (v mod 256)]"
  by simp

lemma be_bytes_2: "be_bytes 2 v = [word_of_nat (v div 256 mod 256), word_of_nat (v mod 256)]"
  unfolding numeral_2_eq_2 by simp

lemma create_rtp_header_ok:
  assumes "s \<le> 65535" "0 \<le> ts" "ts < 2 ^ 32"
  shows "\<exists>h. create_rtp_header (int s) ts SSRC = Inr h \<and> length h = 12 \<and> rtp_seq (h @ p) = s"
proof -
  have s: "s div 256 mod 256 * 256 + s mod 256 = s" using assms(1) by simp
  have u: "unat (word_of_nat (s div 256 mod 256) :: byte) = s div 256 mod 256"
       "unat (word_of_nat (s mod 256) :: byte) = s mod 256"
    by (simp_all add: unat_of_nat)
  have h: "create_rtp_header (int s) ts SSRC =
      Inr (be_bytes 1 128 @ be_bytes 1 26 @ be_bytes 2 s @ be_bytes 4 (nat ts) @ be_bytes 4 (nat SSRC))"
    using assms by (simp add: create_rtp_header_def struct_pack_BBHII_def pack_uint_def SSRC_def)
  show ?thesis
    unfolding h using s u
    by (simp add: length_be_bytes rtp_seq_def be_bytes_2 nth_append)
qed


lemma count_step:
  fixes c x :: nat
  assumes "0 < c" "0 < x"
  shows "(x + c - 1) div c = Suc ((x - min x c + c - 1) div c)"
proof (cases "c \<le> x")
  case True
  then have "x + c - 1 = (x - c + c - 1) + c" using assms by simp
  then have "(x + c - 1) div c = (x - c + c - 1) div c + 1"
    using assms by (metis div_add_self2 less_numeral_extra(3))
  with True show ?thesis by (simp add: min_def)
next
  case False
  then have "(x + c - 1) div c = 1" using assms
    by (simp add: div_eq_dividend_iff Suc_leI div_nat_eqI)
  with False assms show ?thesis by (simp add: min_def)
qed


lemma wrap_mod: "s \<le> 65535 \<Longrightarrow> (if s + 1 > 65535 then 0 else s + 1) = (s + 1) mod (65536::nat)"
  by (cases "s = 65535") auto

lemma frag_general:
  "H < M \<Longrightarrow> \<forall>k. net k \<Longrightarrow> 0 \<le> ts \<Longrightarrow> ts < 2 ^ 32 \<Longrightarrow>
   sequence_number j \<le> 65535 \<Longrightarrow> offset \<le> length d \<Longrightarrow>
    \<exists>new. fragment_loop M H net d ts offset j =
       (FragDone, j\<lparr>sent := sent j @ new,
                    sequence_number := (sequence_number j + length new) mod 65536\<rparr>)
      \<and> length new = (length d - offset + nat (M - H) - 1) div nat (M - H)
      \<and> (\<forall>p \<in> set new. int (length p) \<le> 12 + (M - H))
      \<and> concat (map rtp_payload new) = drop offset d"
proof (induction "length d - offset" arbitrary: offset j rule: less_induct)
  case less
  note prems = less.prems
  have cpos: "0 < nat (M - H)" using prems by simp
  show ?case
  proof (cases "offset < length d")
    case False
    then have "fragment_loop M H net d ts offset j = (FragDone, j)"
      by (subst fragment_loop.simps) simp
    moreover have "(length d - offset + nat (M - H) - 1) div nat (M - H) = 0"
      using False cpos by simp
    moreover have "drop offset d = []" using False by simp
    moreover have "j\<lparr>sent := sent j @ [], sequence_number := (sequence_number j + length ([]::bytes list)) mod 65536\<rparr> = j"
      using prems(5) by simp
    ultimately show ?thesis
      by (intro exI[of _ "[]"]) (simp only: list.size list.map concat.simps list.set ball_empty simp_thms)
  next
    case True
    define ps where "ps = min (int (length d) - int offset) (M - H)"
    have pspos: "0 < ps" using True prems by (simp add: ps_def)
    have psn: "nat ps = min (length d - offset) (nat (M - H))"
      using True prems unfolding ps_def min_def by (auto simp: nat_diff_distrib' nat_le_iff)
    obtain h where h: "create_rtp_header (int (sequence_number j)) ts SSRC = Inr h" "length h = 12"
      using create_rtp_header_ok[of "sequence_number j" ts] prems by blast
    define pkt where "pkt = h @ take (nat ps) (drop offset d)"
    define j' where "j' = j\<lparr>sent := sent j @ [pkt],
        sequence_number := (if sequence_number j + 1 > 65535 then 0 else sequence_number j + 1)\<rparr>"
    have unfold: "fragment_loop M H net d ts offset j = fragment_loop M H net d ts (offset + nat ps) j'"
      using True pspos h prems(2)
      by (subst fragment_loop.simps) (simp add: ps_def[symmetric] Let_def pkt_def j'_def)
    have seq': "sequence_number j' = (sequence_number j + 1) mod 65536"
      using wrap_mod[of "sequence_number j"] prems(5) by (simp add: j'_def del: One_nat_def)
    have "\<exists>new. fragment_loop M H net d ts (offset + nat ps) j' =
       (FragDone, j'\<lparr>sent := sent j' @ new,
                    sequence_number := (sequence_number j' + length new) mod 65536\<rparr>)
      \<and> length new = (length d - (offset + nat ps) + nat (M - H) - 1) div nat (M - H)
      \<and> (\<forall>p \<in> set new. int (length p) \<le> 12 + (M - H))
      \<and> concat (map rtp_payload new) = drop (offset + nat ps) d"
    proof (rule less.hyps)
      show "length d - (offset + nat ps) < length d - offset" using psn True cpos by simp
      show "H < M" "\<forall>k. net k" "0 \<le> ts" "ts < 2 ^ 32" using prems by auto
      show "sequence_number j' \<le> 65535" using seq' by simp
      show "offset + nat ps \<le> length d" using psn True by simp
    qed
    then obtain new where new:
      "fragment_loop M H net d ts (offset + nat ps) j' =
       (FragDone, j'\<lparr>sent := sent j' @ new,
                    sequence_number := (sequence_number j' + length new) mod 65536\<rparr>)"
      "length new = (length d - (offset + nat ps) + nat (M - H) - 1) div nat (M - H)"
      "\<forall>p \<in> set new. int (length p) \<le> 12 + (M - H)"
      "concat (map rtp_payload new) = drop (offset + nat ps) d"
      by blast
    have a: "fragment_loop M H net d ts offset j =
       (FragDone, j\<lparr>sent := sent j @ (pkt # new),
                    sequence_number := (sequence_number j + length (pkt # new)) mod 65536\<rparr>)"
    proof -
      have j'_alt: "j' = j\<lparr>sent := sent j @ [pkt],
          sequence_number := (sequence_number j + 1) mod 65536\<rparr>"
        unfolding j'_def using wrap_mod[OF prems(5)] by (simp del: One_nat_def)
      show ?thesis
        unfolding unfold new(1) by (simp add: j'_alt mod_simps)
    qed
    have b: "length (pkt # new) = (length d - offset + nat (M - H) - 1) div nat (M - H)"
    proof -
      have "0 < length d - offset" using True by simp
      from count_step[OF cpos this]
      have "(length d - offset + nat (M - H) - 1) div nat (M - H) =
            Suc ((length d - offset - nat ps + nat (M - H) - 1) div nat (M - H))"
        unfolding psn .
      moreover have "length d - (offset + nat ps) = length d - offset - nat ps" by simp
      moreover note new(2)
      ultimately show ?thesis by (simp only: list.size add_Suc_right add_0_right One_nat_def)
    qed
    have c: "\<forall>p \<in> set (pkt # new). int (length p) \<le> 12 + (M - H)"
    proof -
      have "length pkt \<le> 12 + nat ps"
        by (simp add: pkt_def h(2))
      moreover have "int (nat ps) \<le> M - H" using pspos by (simp add: ps_def)
      ultimately have "int (length pkt) \<le> 12 + (M - H)" by linarith
      with new(3) show ?thesis by simp
    qed
    have "rtp_payload pkt = take (nat ps) (drop offset d)"
      by (simp add: rtp_payload_def pkt_def h(2))
    moreover have "drop (offset + nat ps) d = drop (nat ps) (drop offset d)"
      by (simp add: add.commute)
    ultimately have e: "concat (map rtp_payload (pkt # new)) = drop offset d"
      using new(4) by (simp del: drop_drop)
    from a b c e show ?thesis by (intro exI[of _ "pkt # new"] conjI)
  qed
qed

lemma ceil_div_nat:
  fixes L c :: nat
  assumes "0 < c"
  shows "(L + c - 1) div c = nat \<lceil>real L / real c\<rceil>"
proof -
  define q where "q = (L + c - 1) div c"
  define r where "r = (L + c - 1) mod c"
  have split: "L + c - 1 = q * c + r" by (simp add: q_def r_def)
  have rlt: "r < c" using assms by (simp add: r_def)
  have 1: "L \<le> q * c" using split rlt by linarith
  have 2: "q * c < L + c" using split assms by linarith
  have c: "0 < real c" using assms by simp
  have "real L \<le> real q * real c" using 1 by (metis of_nat_le_iff of_nat_mult)
  then have up: "real L / real c \<le> real_of_int (int q)" using c by (simp add: pos_divide_le_eq)
  have "real q * real c < real L + real c" using 2 by (metis of_nat_less_iff of_nat_mult of_nat_add)
  then have "(real q - 1) * real c < real L" by (simp add: algebra_simps)
  then have lo: "real_of_int (int q) - 1 < real L / real c" using c by (simp add: pos_less_divide_eq)
  have "\<lceil>real L / real c\<rceil> = int q" using lo up by (rule ceiling_unique)
  then show ?thesis by (simp add: q_def)
qed

text \<open>
  Claim C1. With the header size 12 and any maximum datagram size \<open>M\<close> above it (1400 as
  configured), on a network that accepts every datagram and with a timestamp that fits
  32 bits, the fragmentation loop runs to completion and appends exactly
  \<open>ceil(L / (M - H))\<close> datagrams for a payload of \<open>L\<close> octets, each of at most \<open>M\<close>
  octets, whose payload slices concatenated in emission order are the payload; an empty
  payload gives no datagram.
\<close>

theorem fragmentation_correct:
  assumes "RTP_HEADER_SIZE < M"
    and "\<forall>k. net k"
    and "0 \<le> timestamp" and "timestamp < 2 ^ 32"
    and "sequence_number j \<le> 65535"
  shows "\<exists>new. fragment_loop M RTP_HEADER_SIZE net jpeg_data timestamp 0 j =
             (FragDone, j\<lparr>sent := sent j @ new,
                sequence_number := (sequence_number j + length new) mod 65536\<rparr>)
         \<and> length new = nat \<lceil>real (length jpeg_data) / real_of_int (M - RTP_HEADER_SIZE)\<rceil>
         \<and> (\<forall>p \<in> set new. int (length p) \<le> M)
         \<and> concat (map rtp_payload new) = jpeg_data
         \<and> (jpeg_data = [] \<longrightarrow> new = [])"
proof -
  let ?c = "nat (M - RTP_HEADER_SIZE)"
  have cpos: "0 < ?c" using assms(1) by simp
  obtain new where new:
    "fragment_loop M RTP_HEADER_SIZE net jpeg_data timestamp 0 j =
       (FragDone, j\<lparr>sent := sent j @ new,
          sequence_number := (sequence_number j + length new) mod 65536\<rparr>)"
    "length new = (length jpeg_data - 0 + ?c - 1) div ?c"
    "\<forall>p \<in> set new. int (length p) \<le> 12 + (M - RTP_HEADER_SIZE)"
    "concat (map rtp_payload new) = drop 0 jpeg_data"
    using frag_general[OF assms(1,2,3,4,5), of 0 jpeg_data] by blast
  have "real ?c = real_of_int (M - RTP_HEADER_SIZE)" using assms(1) by simp
  with ceil_div_nat[OF cpos, of "length jpeg_data"]
  have "(length jpeg_data + ?c - 1) div ?c =
        nat \<lceil>real (length jpeg_data) / real_of_int (M - RTP_HEADER_SIZE)\<rceil>"
    by (simp only:)
  with new(2)
  have len: "length new = nat \<lceil>real (length jpeg_data) / real_of_int (M - RTP_HEADER_SIZE)\<rceil>"
    by (simp only: diff_zero)
  have size: "\<forall>p \<in> set new. int (length p) \<le> M"
    using new(3) by (simp add: RTP_HEADER_SIZE_def)
  have empty: "jpeg_data = [] \<longrightarrow> new = []"
  proof
    assume "jpeg_data = []"
    with len have "length new = 0" by simp
    then show "new = []" by simp
  qed
  have cat: "concat (map rtp_payload new) = jpeg_data" using new(4) by simp
  from new(1) len size cat empty show ?thesis by (intro exI[of _ new] conjI)
qed

theorem fragmentation_correct_witness:
  "RTP_HEADER_SIZE < MAX_PACKET_SIZE \<and>
   (\<exists>new. fragment_loop MAX_PACKET_SIZE RTP_HEADER_SIZE (\<lambda>k. True) [1, 2, 3] 0 0
             \<lparr>status = Streaming, sequence_number = 65535, sent = []\<rparr> =
             (FragDone, \<lparr>status = Streaming, sequence_number = (65535 + length new) mod 65536,
                         sent = new\<rparr>)
         \<and> length new = nat \<lceil>real (length [1, 2, 3 :: byte]) / real_of_int (MAX_PACKET_SIZE - RTP_HEADER_SIZE)\<rceil>
         \<and> (\<forall>p \<in> set new. int (length p) \<le> MAX_PACKET_SIZE)
         \<and> concat (map rtp_payload new) = [1, 2, 3])"
proof -
  have h1: "RTP_HEADER_SIZE < MAX_PACKET_SIZE"
    by (simp add: RTP_HEADER_SIZE_def MAX_PACKET_SIZE_def)
  have h2: "\<forall>k::nat. (\<lambda>k. True) k" by simp
  have h3: "(0::int) \<le> 0" and h4: "(0::int) < 2 ^ 32" by simp_all
  have h5: "sequence_number \<lparr>status = Streaming, sequence_number = 65535, sent = []\<rparr> \<le> 65535"
    by simp
  from fragmentation_correct[OF h1 h2 h3 h4 h5, of "[1, 2, 3]"]
  obtain new where new:
    "fragment_loop MAX_PACKET_SIZE RTP_HEADER_SIZE (\<lambda>k. True) [1, 2, 3] 0 0
        \<lparr>status = Streaming, sequence_number = 65535, sent = []\<rparr> =
      (FragDone, \<lparr>status = Streaming, sequence_number = 65535, sent = []\<rparr>
          \<lparr>sent := sent \<lparr>status = Streaming, sequence_number = 65535, sent = []\<rparr> @ new,
           sequence_number := (sequence_number \<lparr>status = Streaming, sequence_number = 65535, sent = []\<rparr> + length new) mod 65536\<rparr>)"
    "length new = nat \<lceil>real (length [1, 2, 3 :: byte]) / real_of_int (MAX_PACKET_SIZE - RTP_HEADER_SIZE)\<rceil>"
    "\<forall>p \<in> set new. int (length p) \<le> MAX_PACKET_SIZE"
    "concat (map rtp_payload new) = [1, 2, 3]"
    by blast
  have eq: "\<lparr>status = Streaming, sequence_number = 65535, sent = []\<rparr>
          \<lparr>sent := sent \<lparr>status = Streaming, sequence_number = 65535, sent = []\<rparr> @ new,
           sequence_number := (sequence_number \<lparr>status = Streaming, sequence_number = 65535, sent = []\<rparr> + length new) mod 65536\<rparr>
      = \<lparr>status = Streaming, sequence_number = (65535 + length new) mod 65536, sent = new\<rparr>"
    by simp
  from new(1)[unfolded eq] new(2,3,4) h1 show ?thesis by (intro conjI exI[of _ new])
qed

end
